theory Spec2Isabelle
  imports Main "HOL-Library.Sublist"
begin

section \<open>Values, errors and the effect type\<close>

text \<open>
  The gateway is Python: every function may raise, and what it wrote to the document store
  before raising stays written. A function of the source is therefore modelled as a state
  transformer that returns either the raised error or the result, together with the state
  reached at that point. Python's \<^verbatim>\<open>None\<close> for an optional value is \<open>None\<close> of
  \<open>'a option\<close>; a Python \<^verbatim>\<open>str\<close> is a \<open>string\<close>.
\<close>

datatype error = StoreError | ValidationError | KeyError | ApiError | DecodeError

definition ok :: "'a \<Rightarrow> 's \<Rightarrow> (error + 'a) \<times> 's" where
  "ok x s = (Inr x, s)"

definition raise :: "error \<Rightarrow> 's \<Rightarrow> (error + 'a) \<times> 's" where
  "raise e s = (Inl e, s)"

definition and_then ::
  "('s \<Rightarrow> (error + 'a) \<times> 's) \<Rightarrow> ('a \<Rightarrow> 's \<Rightarrow> (error + 'b) \<times> 's) \<Rightarrow> 's \<Rightarrow> (error + 'b) \<times> 's" where
  "and_then m f s = (case m s of (Inl e, s') \<Rightarrow> (Inl e, s') | (Inr x, s') \<Rightarrow> f x s')"

text \<open>Python truthiness of an optional string: \<^verbatim>\<open>None\<close> and \<^verbatim>\<open>""\<close> are false.\<close>

definition truthy :: "string option \<Rightarrow> bool" where
  "truthy x = (case x of None \<Rightarrow> False | Some t \<Rightarrow> t \<noteq> [])"

text \<open>\<^verbatim>\<open>x or d\<close> on an optional string.\<close>

definition or_else :: "string option \<Rightarrow> string \<Rightarrow> string" where
  "or_else x d = (case x of None \<Rightarrow> d | Some t \<Rightarrow> if t = [] then d else t)"

text \<open>\<^verbatim>\<open>sub in s\<close> on strings.\<close>

fun contains :: "string \<Rightarrow> string \<Rightarrow> bool" where
  "contains sub [] = (sub = [])"
| "contains sub (c # cs) = (prefix sub (c # cs) \<or> contains sub cs)"

text \<open>\<^verbatim>\<open>str(n)\<close> on an integer: decimal digits, with a leading minus sign.\<close>

definition digit_char :: "nat \<Rightarrow> char" where
  "digit_char d = ''0123456789'' ! d"

fun digits :: "nat \<Rightarrow> string" where
  "digits n = (if n < 10 then [digit_char n] else digits (n div 10) @ [digit_char (n mod 10)])"

declare digits.simps [simp del]

definition str_int :: "int \<Rightarrow> string" where
  "str_int i = (if i < 0 then CHR ''-'' # digits (nat (- i)) else digits (nat i))"

definition nl :: string where
  "nl = [CHR 0x0A]"

section \<open>Data model (models.py)\<close>

record user =
  telegram_id :: int
  username :: "string option"
  first_name :: "string option"
  last_name :: "string option"
  created_at :: nat
  updated_at :: nat
  is_active :: bool

text \<open>\<^verbatim>\<open>message_type\<close> is a string field with \<^verbatim>\<open>choices=['user', 'assistant']\<close>.\<close>

datatype msg_type = MUser | MAssistant

record conversation =
  conv_user :: string
  message_type :: msg_type
  content :: string
  conv_timestamp :: nat
  message_id :: "int option"

record file_message =
  fm_user :: string
  file_id :: "string option"
  file_type :: string
  file_name :: "string option"
  file_size :: "int option"
  mime_type :: "string option"
  processed :: bool
  analysis_result :: "string option"
  fm_timestamp :: nat

text \<open>
  What a call of the completion client carries: a plain prompt, or image bytes with their
  MIME type followed by a prompt.
\<close>

datatype contents = Text string | WithImage string string string

text \<open>
  A downloaded temporary file: its bytes, and what reading it as UTF-8 text gives
  (\<open>None\<close> when decoding raises).
\<close>

record tmp_file =
  file_bytes :: string
  file_text :: "string option"

text \<open>
  The state is the document store (three collections, each in insertion order) together
  with the logs of the outside calls made so far: clock readings taken, store operations
  attempted, completion calls, download requests and messages delivered.
\<close>

record state =
  users :: "user list"
  conversations :: "conversation list"
  file_messages :: "file_message list"
  ticks :: nat
  store_ops :: nat
  api_calls :: "(string \<times> contents) list"
  downloads :: "string option list"
  sent :: "(int \<times> string) list"

text \<open>
  The environment fixes how the outside world answers: the reading of the clock at its
  k-th use (no monotonicity is assumed), whether the k-th store operation raises, what the
  completion service returns (\<^verbatim>\<open>response.text\<close>, or an error), what a download yields and
  whether delivering a message succeeds.
\<close>

record env =
  clock :: "nat \<Rightarrow> nat"
  store_fails :: "nat \<Rightarrow> bool"
  generate_content :: "string \<Rightarrow> contents \<Rightarrow> error + string option"
  fetch_file :: "string option \<Rightarrow> tmp_file option"
  deliver :: "int \<Rightarrow> string \<Rightarrow> bool"
  bot_available :: bool

section \<open>Store primitives\<close>

text \<open>\<^verbatim>\<open>datetime.utcnow()\<close>.\<close>

definition utcnow :: "env \<Rightarrow> state \<Rightarrow> (error + nat) \<times> state" where
  "utcnow e s = (Inr (clock e (ticks s)), s\<lparr>ticks := Suc (ticks s)\<rparr>)"

text \<open>One round trip to the store: it is counted, and raises when the store is down.\<close>

definition store_op :: "env \<Rightarrow> state \<Rightarrow> (error + unit) \<times> state" where
  "store_op e s =
     (if store_fails e (store_ops s) then (Inl StoreError, s\<lparr>store_ops := Suc (store_ops s)\<rparr>)
      else (Inr (), s\<lparr>store_ops := Suc (store_ops s)\<rparr>))"

text \<open>
  Field validation run by \<^verbatim>\<open>save()\<close> before anything is written, from the field
  declarations: \<^verbatim>\<open>max_length\<close> bounds the length of a string that is present,
  \<^verbatim>\<open>required\<close> refuses \<^verbatim>\<open>None\<close>.
\<close>

definition max_length :: "nat \<Rightarrow> string option \<Rightarrow> bool" where
  "max_length n x = (case x of None \<Rightarrow> True | Some t \<Rightarrow> length t \<le> n)"

definition validate_user :: "user \<Rightarrow> bool" where
  "validate_user u =
     (max_length 255 (username u) \<and> max_length 255 (first_name u) \<and> max_length 255 (last_name u))"

definition validate_file_message :: "file_message \<Rightarrow> bool" where
  "validate_file_message f =
     (file_id f \<noteq> None \<and> max_length 255 (file_id f) \<and> length (file_type f) \<le> 50 \<and>
      max_length 255 (file_name f) \<and> max_length 100 (mime_type f))"

text \<open>\<^verbatim>\<open>User.objects(telegram_id=...).first()\<close>.\<close>

definition users_first :: "env \<Rightarrow> int \<Rightarrow> state \<Rightarrow> (error + user option) \<times> state" where
  "users_first e tid =
     and_then (store_op e) (\<lambda>_ s. (Inr (find (\<lambda>u. telegram_id u = tid) (users s)), s))"

text \<open>
  \<^verbatim>\<open>user.save()\<close>: the document with this (unique) id is replaced, or the document is
  inserted when there is none.
\<close>

definition put_user :: "user \<Rightarrow> user list \<Rightarrow> user list" where
  "put_user u us =
     (if \<exists>v \<in> set us. telegram_id v = telegram_id u
      then map (\<lambda>v. if telegram_id v = telegram_id u then u else v) us
      else us @ [u])"

definition save_user :: "env \<Rightarrow> user \<Rightarrow> state \<Rightarrow> (error + unit) \<times> state" where
  "save_user e u =
     (if \<not> validate_user u then raise ValidationError
      else and_then (store_op e) (\<lambda>_ s. (Inr (), s\<lparr>users := put_user u (users s)\<rparr>)))"

section \<open>gemini\_service.py: users and messages\<close>

text \<open>
  \<^verbatim>\<open>User(telegram_id=..., ...)\<close>: the two timestamp defaults each read the clock when the
  document is built.
\<close>

definition new_user ::
  "env \<Rightarrow> int \<Rightarrow> string option \<Rightarrow> string option \<Rightarrow> string option \<Rightarrow> state \<Rightarrow> (error + user) \<times> state" where
  "new_user e tid uname fname lname =
     and_then (utcnow e) (\<lambda>c. and_then (utcnow e) (\<lambda>u.
       ok \<lparr>telegram_id = tid, username = uname, first_name = fname, last_name = lname,
           created_at = c, updated_at = u, is_active = True\<rparr>))"

definition get_or_create_user ::
  "env \<Rightarrow> int \<Rightarrow> string option \<Rightarrow> string option \<Rightarrow> string option \<Rightarrow> state \<Rightarrow> (error + user) \<times> state" where
  "get_or_create_user e tid uname fname lname =
     and_then (users_first e tid) (\<lambda>found.
       case found of
         None \<Rightarrow>
           and_then (new_user e tid uname fname lname) (\<lambda>u.
           and_then (save_user e u) (\<lambda>_. ok u))
       | Some u \<Rightarrow>
           if username u \<noteq> uname \<or> first_name u \<noteq> fname then
             and_then (utcnow e) (\<lambda>t.
               let u' = u\<lparr>username := uname, first_name := fname, last_name := lname,
                          updated_at := t\<rparr>
               in and_then (save_user e u') (\<lambda>_. ok u'))
           else ok u)"

text \<open>
  \<^verbatim>\<open>save_message\<close>: a pure insert. The document's timestamp default reads the clock when
  the document is built. The content is always a string, so the \<^verbatim>\<open>required\<close> check
  of the field cannot fail.
\<close>

definition save_message ::
  "env \<Rightarrow> user \<Rightarrow> msg_type \<Rightarrow> string \<Rightarrow> int option \<Rightarrow> state \<Rightarrow> (error + unit) \<times> state" where
  "save_message e u mt c mid =
     and_then (utcnow e) (\<lambda>t.
     and_then (store_op e) (\<lambda>_ s.
       (Inr (), s\<lparr>conversations := conversations s @
          [\<lparr>conv_user = str_int (telegram_id u), message_type = mt, content = c,
            conv_timestamp = t, message_id = mid\<rparr>]\<rparr>)))"

text \<open>
  \<^verbatim>\<open>order_by('-timestamp')\<close>: newest first. The store is outside the repository; entries
  with equal timestamps are taken in the order the specification gives (ties broken by
  insertion order, so the later insertion counts as the newer entry).
\<close>

definition order_by_neg_timestamp :: "conversation list \<Rightarrow> conversation list" where
  "order_by_neg_timestamp xs = rev (sort_key conv_timestamp xs)"

text \<open>
  \<^verbatim>\<open>get_conversation_context\<close>. The limit is \<^verbatim>\<open>int | None\<close>; the model covers the
  non-negative limits. \<^verbatim>\<open>if limit:\<close> is false for \<^verbatim>\<open>None\<close> and for 0.
\<close>

definition get_conversation_context ::
  "env \<Rightarrow> user \<Rightarrow> nat option \<Rightarrow> state \<Rightarrow> (error + conversation list) \<times> state" where
  "get_conversation_context e u limit =
     and_then (store_op e) (\<lambda>_ s.
       let query = order_by_neg_timestamp
                     (filter (\<lambda>c. conv_user c = str_int (telegram_id u)) (conversations s));
           query' = (case limit of
                       None \<Rightarrow> query
                     | Some n \<Rightarrow> if n \<noteq> 0 then take n query else query)
       in (Inr (rev query'), s))"

text \<open>A call of \<^verbatim>\<open>client.models.generate_content\<close>: logged, then answered by the environment.\<close>

definition call_model :: "env \<Rightarrow> string \<Rightarrow> contents \<Rightarrow> state \<Rightarrow> (error + string option) \<times> state" where
  "call_model e m c s = (generate_content e m c, s\<lparr>api_calls := api_calls s @ [(m, c)]\<rparr>)"

definition model_name :: string where
  "model_name = ''gemini-2.5-flash''"

definition vision_model :: string where
  "vision_model = ''gemini-2.5-pro''"

definition max_context_messages :: nat where
  "max_context_messages = 20"

text \<open>\<^verbatim>\<open>msg.message_type.capitalize()\<close> on the two values the field admits.\<close>

fun capitalize :: "msg_type \<Rightarrow> string" where
  "capitalize MUser = ''User''"
| "capitalize MAssistant = ''Assistant''"

text \<open>\<^verbatim>\<open>"\n".join(xs)\<close>.\<close>

fun join_nl :: "string list \<Rightarrow> string" where
  "join_nl [] = []"
| "join_nl [x] = x"
| "join_nl (x # y # ys) = x @ nl @ join_nl (y # ys)"

text \<open>\<^verbatim>\<open>xs[-n:]\<close> for a positive n.\<close>

definition last_n :: "nat \<Rightarrow> 'a list \<Rightarrow> 'a list" where
  "last_n n xs = drop (length xs - n) xs"

definition render_line :: "conversation \<Rightarrow> string" where
  "render_line c = capitalize (message_type c) @ '': '' @ content c"

definition system_prompt :: "string option \<Rightarrow> string option \<Rightarrow> string" where
  "system_prompt fname uname =
     ''You are a helpful AI assistant integrated into a Telegram bot. '' @
     ''Provide helpful, accurate, and concise responses. '' @
     ''Be friendly and conversational. '' @
     ''If asked about your capabilities, mention that you're powered by Google Gemini AI and can process text, images, and files. '' @
     ''The user's name is '' @
       or_else fname (or_else uname ''there'') @ ''. '' @
     ''Keep responses relatively short for chat format unless detailed information is requested.''"

definition history_header :: string where
  "history_header = ''Conversation history:''"

definition full_prompt :: "string \<Rightarrow> string \<Rightarrow> string \<Rightarrow> string" where
  "full_prompt sp context message =
     (if context \<noteq> [] then
        sp @ nl @ nl @ history_header @ nl @ context @ nl @ nl @
        ''Please respond to the latest user message.''
      else sp @ nl @ nl @ ''User message: '' @ message)"

definition no_response :: string where
  "no_response = ''I'm sorry, I couldn't generate a response right now.''"

definition technical_difficulties :: string where
  "technical_difficulties =
     ''I'm experiencing some technical difficulties right now. Please try again later.''"

text \<open>
  The prompt built from the fetched context: the last ten entries, one rendered line each,
  joined by newlines, under the system instruction.
\<close>

definition build_prompt ::
  "string option \<Rightarrow> string option \<Rightarrow> string \<Rightarrow> conversation list \<Rightarrow> string" where
  "build_prompt fname uname message recent_messages =
     (let context_messages = map render_line (last_n 10 recent_messages);
          context = join_nl context_messages
      in full_prompt (system_prompt fname uname) context message)"

text \<open>The body of the \<^verbatim>\<open>try\<close> block of \<^verbatim>\<open>generate_response\<close>.\<close>

definition generate_response_try ::
  "env \<Rightarrow> int \<Rightarrow> string \<Rightarrow> string option \<Rightarrow> string option \<Rightarrow> string option \<Rightarrow> int option
     \<Rightarrow> state \<Rightarrow> (error + string) \<times> state" where
  "generate_response_try e tid message uname fname lname mid =
     and_then (get_or_create_user e tid uname fname lname) (\<lambda>u.
     and_then (save_message e u MUser message mid) (\<lambda>_.
     and_then (get_conversation_context e u (Some max_context_messages)) (\<lambda>recent_messages.
     and_then (call_model e model_name
                 (Text (build_prompt fname uname message recent_messages))) (\<lambda>text.
       let ai_response = or_else text no_response in
     and_then (save_message e u MAssistant ai_response None) (\<lambda>_.
       ok ai_response)))))"

text \<open>\<^verbatim>\<open>generate_response\<close>: any exception of the body becomes the fixed reply.\<close>

definition generate_response ::
  "env \<Rightarrow> int \<Rightarrow> string \<Rightarrow> string option \<Rightarrow> string option \<Rightarrow> string option \<Rightarrow> int option
     \<Rightarrow> state \<Rightarrow> string \<times> state" where
  "generate_response e tid message uname fname lname mid s =
     (case generate_response_try e tid message uname fname lname mid s of
        (Inl _, s') \<Rightarrow> (technical_difficulties, s')
      | (Inr r, s') \<Rightarrow> (r, s'))"

text \<open>
  \<^verbatim>\<open>Conversation.objects(user=k).delete()\<close>: removes the entries of the key and gives
  their number.
\<close>

definition delete_conversations :: "env \<Rightarrow> string \<Rightarrow> state \<Rightarrow> (error + nat) \<times> state" where
  "delete_conversations e k =
     and_then (store_op e) (\<lambda>_ s.
       (Inr (length (filter (\<lambda>c. conv_user c = k) (conversations s))),
        s\<lparr>conversations := filter (\<lambda>c. conv_user c \<noteq> k) (conversations s)\<rparr>))"

text \<open>
  \<^verbatim>\<open>clear_context\<close>: the number the store gives is dropped and an exception is logged
  and swallowed. The function has no \<^verbatim>\<open>return\<close> statement, so its value is
  \<^verbatim>\<open>None\<close> on both paths; the value is typed as an optional count to say so.
\<close>

definition clear_context :: "env \<Rightarrow> int \<Rightarrow> state \<Rightarrow> nat option \<times> state" where
  "clear_context e tid s =
     (case delete_conversations e (str_int tid) s of
        (Inl _, s') \<Rightarrow> (None, s')
      | (Inr _, s') \<Rightarrow> (None, s'))"

definition welcome_fallback :: "string option \<Rightarrow> string" where
  "welcome_fallback uname =
     ''Welcome'' @ (if truthy uname then '' '' @ the uname else '''') @
     ''! I'm an AI assistant powered by Google Gemini. I can help with text, images, and files. How can I help you today?''"

definition get_welcome_message :: "env \<Rightarrow> string option \<Rightarrow> state \<Rightarrow> string \<times> state" where
  "get_welcome_message e uname s =
     (let prompt =
            ''Generate a friendly welcome message for a new user '' @
            (if truthy uname then ''named '' @ the uname else '''') @
            '' who just started using '' @
            ''an AI assistant Telegram bot. Keep it concise and welcoming. '' @
            ''Mention that you're powered by Google Gemini AI and can help with text, images, and files. Ask how you can help.''
      in case call_model e model_name (Text prompt) s of
           (Inl _, s') \<Rightarrow> (welcome_fallback uname, s')
         | (Inr text, s') \<Rightarrow> (or_else text (welcome_fallback uname), s'))"

section \<open>gemini\_service.py: media analysis\<close>

text \<open>
  A \<^verbatim>\<open>FileMessage\<close> document is identified by its position in the collection (the core
  never deletes one): the first \<^verbatim>\<open>save()\<close> inserts it, a later \<^verbatim>\<open>save()\<close> of the
  same object rewrites it in place.
\<close>

definition insert_file_message :: "env \<Rightarrow> file_message \<Rightarrow> state \<Rightarrow> (error + nat) \<times> state" where
  "insert_file_message e f =
     (if \<not> validate_file_message f then raise ValidationError
      else and_then (store_op e) (\<lambda>_ s.
             (Inr (length (file_messages s)), s\<lparr>file_messages := file_messages s @ [f]\<rparr>)))"

definition update_file_message :: "env \<Rightarrow> nat \<Rightarrow> file_message \<Rightarrow> state \<Rightarrow> (error + unit) \<times> state" where
  "update_file_message e i f =
     (if \<not> validate_file_message f then raise ValidationError
      else and_then (store_op e) (\<lambda>_ s.
             (Inr (), s\<lparr>file_messages := (file_messages s)[i := f]\<rparr>)))"

definition apos :: string where
  "apos = [CHR 0x27]"

definition image_prompt :: "string option \<Rightarrow> string" where
  "image_prompt caption =
     ''Analyze this image in detail and describe what you see. '' @
     ''Include objects, people, setting, colors, mood, and any text if present. '' @
     ''Be conversational and engaging in your description.'' @
     (if truthy caption
      then '' The user also sent this caption: '' @ apos @ the caption @ apos else '''')"

definition image_apology :: string where
  "image_apology = ''I'm sorry, I couldn't analyze this image. Please try again later.''"

text \<open>
  The body of the \<^verbatim>\<open>try\<close> block of \<^verbatim>\<open>analyze_image\<close>. The file at
  \<^verbatim>\<open>file_path\<close> is passed as the file itself.
\<close>

definition analyze_image_try ::
  "env \<Rightarrow> int \<Rightarrow> string option \<Rightarrow> tmp_file \<Rightarrow> string option \<Rightarrow> state \<Rightarrow> (error + string) \<times> state" where
  "analyze_image_try e tid fid file caption =
     and_then (get_or_create_user e tid None None None) (\<lambda>u.
     and_then (utcnow e) (\<lambda>t.
       let file_msg = \<lparr>fm_user = str_int (telegram_id u), file_id = fid, file_type = ''photo'',
                        file_name = None, file_size = None, mime_type = None,
                        processed = False, analysis_result = None, fm_timestamp = t\<rparr>
       in
     and_then (insert_file_message e file_msg) (\<lambda>i.
     and_then (call_model e vision_model
                 (WithImage (file_bytes file) ''image/jpeg'' (image_prompt caption))) (\<lambda>text.
       let result = or_else text ''I could not analyze this image.'' in
     and_then (update_file_message e i
                 (file_msg\<lparr>analysis_result := Some result, processed := True\<rparr>)) (\<lambda>_.
     and_then (save_message e u MUser
                 (''[Sent an image'' @ (if truthy caption then '': '' @ the caption else '''') @ '']'')
                 None) (\<lambda>_.
     and_then (save_message e u MAssistant result None) (\<lambda>_.
       ok result)))))))"

definition analyze_image ::
  "env \<Rightarrow> int \<Rightarrow> string option \<Rightarrow> tmp_file \<Rightarrow> string option \<Rightarrow> state \<Rightarrow> string \<times> state" where
  "analyze_image e tid fid file caption s =
     (case analyze_image_try e tid fid file caption s of
        (Inl _, s') \<Rightarrow> (image_apology, s')
      | (Inr r, s') \<Rightarrow> (r, s'))"

text \<open>A function that cannot raise, used where one that can is expected.\<close>

definition returns :: "('s \<Rightarrow> 'a \<times> 's) \<Rightarrow> 's \<Rightarrow> (error + 'a) \<times> 's" where
  "returns f s = (case f s of (r, s') \<Rightarrow> (Inr r, s'))"

text \<open>The inner \<^verbatim>\<open>try\<close> of the text branch of \<^verbatim>\<open>analyze_document\<close>, and its handler.\<close>

definition summarize_text_try ::
  "env \<Rightarrow> tmp_file \<Rightarrow> string \<Rightarrow> string \<Rightarrow> state \<Rightarrow> (error + string) \<times> state" where
  "summarize_text_try e file fname mime =
     (case file_text file of
        None \<Rightarrow> raise DecodeError
      | Some body \<Rightarrow>
          and_then (call_model e model_name
            (Text (''Analyze this '' @ mime @
                   '' document and provide a helpful summary or analysis. '' @
                   ''The filename is '' @ apos @ fname @ apos @ ''. Here's the content:'' @
                   nl @ nl @ take 4000 body))) (\<lambda>text.
          ok (or_else text ''I could not analyze this document.'')))"

definition summarize_text ::
  "env \<Rightarrow> tmp_file \<Rightarrow> string \<Rightarrow> string \<Rightarrow> state \<Rightarrow> (error + string) \<times> state" where
  "summarize_text e file fname mime s =
     (case summarize_text_try e file fname mime s of
        (Inl _, s') \<Rightarrow>
          (Inr (''I received your document '' @ apos @ fname @ apos @
                '' but couldn't read its content. It might be in a format I can't process yet.''),
           s')
      | (Inr r, s') \<Rightarrow> (Inr r, s'))"

definition unsupported_type :: "string \<Rightarrow> string option \<Rightarrow> string" where
  "unsupported_type fname mime =
     ''I received your file '' @ apos @ fname @ apos @ '' ('' @ or_else mime ''unknown type'' @
     ''). I can currently analyze text files and images. For other file types, please let me know what you'd like to know about it!''"

definition document_apology :: string where
  "document_apology = ''I'm sorry, I couldn't analyze this document. Please try again later.''"

text \<open>The common tail of \<^verbatim>\<open>analyze_document\<close>, after the branches on the MIME type.\<close>

definition record_analysis ::
  "env \<Rightarrow> user \<Rightarrow> nat \<Rightarrow> file_message \<Rightarrow> string \<Rightarrow> string \<Rightarrow> state \<Rightarrow> (error + string) \<times> state" where
  "record_analysis e u i file_msg fname result =
     and_then (update_file_message e i
                 (file_msg\<lparr>analysis_result := Some result, processed := True\<rparr>)) (\<lambda>_.
     and_then (save_message e u MUser (''[Sent a file: '' @ fname @ '']'') None) (\<lambda>_.
     and_then (save_message e u MAssistant result None) (\<lambda>_.
       ok result)))"

definition analyze_document_try ::
  "env \<Rightarrow> int \<Rightarrow> string option \<Rightarrow> tmp_file \<Rightarrow> string \<Rightarrow> string option \<Rightarrow> state
     \<Rightarrow> (error + string) \<times> state" where
  "analyze_document_try e tid fid file fname mime =
     and_then (get_or_create_user e tid None None None) (\<lambda>u.
     and_then (utcnow e) (\<lambda>t.
       let file_msg = \<lparr>fm_user = str_int (telegram_id u), file_id = fid, file_type = ''document'',
                        file_name = Some fname, file_size = None, mime_type = mime,
                        processed = False, analysis_result = None, fm_timestamp = t\<rparr>
       in
     and_then (insert_file_message e file_msg) (\<lambda>i.
       if truthy mime \<and> contains ''text'' (the mime) then
         and_then (summarize_text e file fname (the mime)) (\<lambda>result.
           record_analysis e u i file_msg fname result)
       else if truthy mime \<and> contains ''image'' (the mime) then
         returns (analyze_image e tid fid file None)
       else
         record_analysis e u i file_msg fname (unsupported_type fname mime))))"

definition analyze_document ::
  "env \<Rightarrow> int \<Rightarrow> string option \<Rightarrow> tmp_file \<Rightarrow> string \<Rightarrow> string option \<Rightarrow> state
     \<Rightarrow> string \<times> state" where
  "analyze_document e tid fid file fname mime s =
     (case analyze_document_try e tid fid file fname mime s of
        (Inl _, s') \<Rightarrow> (document_apology, s')
      | (Inr r, s') \<Rightarrow> (r, s'))"

section \<open>telegram\_bot.py\<close>

text \<open>
  The inbound message is a dictionary; the keys the bot reads are the fields below, an
  absent key being \<open>None\<close>. The sender id is an integer, as every service function
  declares it. Characters outside ASCII in the bot's fixed texts are written as their
  UTF-8 bytes. Temporary files are represented by their content only.
\<close>

record photo_size =
  ps_file_id :: "string option"
  ps_file_size :: "int option"

record document =
  doc_file_id :: "string option"
  doc_file_name :: "string option"
  doc_mime_type :: "string option"
  doc_file_size :: "int option"

record message =
  msg_chat_id :: "int option"
  msg_from_id :: int
  msg_username :: "string option"
  msg_first_name :: "string option"
  msg_last_name :: "string option"
  msg_message_id :: "int option"
  msg_text :: "string option"
  msg_photo :: "photo_size list option"
  msg_caption :: "string option"
  msg_document :: "document option"

record update =
  upd_message :: "message option"
  upd_edited_message :: "message option"
  upd_other_keys :: "string list"

text \<open>\<^verbatim>\<open>send_message\<close>: every failure is caught and becomes \<^verbatim>\<open>False\<close>.\<close>

definition send_message :: "env \<Rightarrow> int \<Rightarrow> string \<Rightarrow> state \<Rightarrow> bool \<times> state" where
  "send_message e chat_id txt s = (deliver e chat_id txt, s\<lparr>sent := sent s @ [(chat_id, txt)]\<rparr>)"

text \<open>
  \<^verbatim>\<open>download_file\<close>: every failure is caught and becomes \<^verbatim>\<open>False\<close> (here
  \<open>None\<close>); on success the file has been written.
\<close>

definition download_file :: "env \<Rightarrow> string option \<Rightarrow> state \<Rightarrow> tmp_file option \<times> state" where
  "download_file e fid s = (fetch_file e fid, s\<lparr>downloads := downloads s @ [fid]\<rparr>)"

text \<open>\<^verbatim>\<open>max(xs, key=k)\<close> on a non-empty list: the first element with the greatest key.\<close>

fun py_max :: "('a \<Rightarrow> int) \<Rightarrow> 'a \<Rightarrow> 'a list \<Rightarrow> 'a" where
  "py_max k best [] = best"
| "py_max k best (x # xs) = py_max k (if k x > k best then x else best) xs"

definition no_photo :: string where
  "no_photo = ''I didn't receive any photo. Please try sending it again.''"

definition handle_photo_try :: "env \<Rightarrow> message \<Rightarrow> state \<Rightarrow> (error + string) \<times> state" where
  "handle_photo_try e m =
     (let telegram_id = msg_from_id m;
          photos = (case msg_photo m of None \<Rightarrow> [] | Some ps \<Rightarrow> ps);
          caption = msg_caption m
      in case photos of
           [] \<Rightarrow> ok no_photo
         | p # ps \<Rightarrow>
             (let largest_photo =
                    py_max (\<lambda>p. case ps_file_size p of None \<Rightarrow> 0 | Some n \<Rightarrow> n) p ps
              in (case ps_file_id largest_photo of
                    None \<Rightarrow> raise KeyError
                  | Some fid \<Rightarrow>
                      (\<lambda>s. case download_file e (Some fid) s of
                              (Some f, s') \<Rightarrow>
                                returns (analyze_image e telegram_id (Some fid) f caption) s'
                            | (None, s') \<Rightarrow>
                                (Inr ''Sorry, I couldn't download your image. Please try again.'', s')))))"

definition handle_photo :: "env \<Rightarrow> message \<Rightarrow> state \<Rightarrow> string \<times> state" where
  "handle_photo e m s =
     (case handle_photo_try e m s of
        (Inl _, s') \<Rightarrow>
          (''Sorry, I encountered an error processing your image. Please try again.'', s')
      | (Inr r, s') \<Rightarrow> (r, s'))"

definition too_large :: string where
  "too_large = ''Sorry, the file is too large. Please send files smaller than 20MB.''"

definition no_download :: string where
  "no_download = ''Sorry, I couldn't download your file. Please try again.''"

definition handle_document_try :: "env \<Rightarrow> message \<Rightarrow> state \<Rightarrow> (error + string) \<times> state" where
  "handle_document_try e m =
     (let telegram_id = msg_from_id m;
          doc = msg_document m;
          fid = (case doc of None \<Rightarrow> None | Some d \<Rightarrow> doc_file_id d);
          fname = (case doc of None \<Rightarrow> ''document''
                   | Some d \<Rightarrow> (case doc_file_name d of None \<Rightarrow> ''document'' | Some n \<Rightarrow> n));
          mime = (case doc of None \<Rightarrow> None | Some d \<Rightarrow> doc_mime_type d);
          fsize = (case doc of None \<Rightarrow> 0
                   | Some d \<Rightarrow> (case doc_file_size d of None \<Rightarrow> 0 | Some n \<Rightarrow> n))
      in if fsize > 20 * 1024 * 1024 then ok too_large
         else (\<lambda>s. case download_file e fid s of
                      (Some f, s') \<Rightarrow> returns (analyze_document e telegram_id fid f fname mime) s'
                    | (None, s') \<Rightarrow> (Inr no_download, s')))"

definition handle_document :: "env \<Rightarrow> message \<Rightarrow> state \<Rightarrow> string \<times> state" where
  "handle_document e m s =
     (case handle_document_try e m s of
        (Inl _, s') \<Rightarrow>
          (''Sorry, I encountered an error processing your document. Please try again.'', s')
      | (Inr r, s') \<Rightarrow> (r, s'))"

definition dq :: string where
  "dq = [CHR 0x22]"

definition bullet :: string where
  "bullet = [CHR 0xE2, CHR 0x80, CHR 0xA2]"

definition help_text :: string where
  "help_text =
     [CHR 0xF0, CHR 0x9F, CHR 0xA4, CHR 0x96] @ '' *AI Assistant Bot Help*'' @ nl @ nl @
     ''*Available Commands:*'' @ nl @
     ''/start - Start a conversation with the bot'' @ nl @
     ''/help - Show this help message'' @ nl @
     ''/clear - Clear conversation history'' @ nl @ nl @
     ''*Features:*'' @ nl @
     bullet @ '' Ask me anything and I'll provide intelligent responses'' @ nl @
     bullet @ '' I remember our conversation context across sessions'' @ nl @
     bullet @ '' Send me images and I'll analyze them'' @ nl @
     bullet @ '' Send me text files and I'll read and analyze them'' @ nl @
     bullet @ '' Powered by Google Gemini AI'' @ nl @ nl @
     ''*Examples:*'' @ nl @
     bullet @ '' '' @ dq @ ''What's the weather like?'' @ dq @ nl @
     bullet @ '' '' @ dq @ ''Explain quantum physics simply'' @ dq @ nl @
     bullet @ '' Send a photo and ask '' @ dq @ ''What do you see?'' @ dq @ nl @
     bullet @ '' Upload a text document for analysis''"

definition history_cleared :: string where
  "history_cleared =
     [CHR 0xE2, CHR 0x9C, CHR 0x85] @ '' Conversation history cleared! We can start fresh.''"

definition unknown_command :: string where
  "unknown_command =
     [CHR 0xE2, CHR 0x9D, CHR 0x93] @
     '' Unknown command. Use /help to see available commands or just send me a message to chat!''"

text \<open>
  \<^verbatim>\<open>handle_command\<close> has no \<^verbatim>\<open>try\<close> of its own: \<^verbatim>\<open>message["chat"]["id"]\<close>
  raises when the key is missing.
\<close>

definition handle_command :: "env \<Rightarrow> message \<Rightarrow> state \<Rightarrow> (error + string) \<times> state" where
  "handle_command e m =
     (let txt = (case msg_text m of None \<Rightarrow> [] | Some t \<Rightarrow> t)
      in case msg_chat_id m of
           None \<Rightarrow> raise KeyError
         | Some chat_id \<Rightarrow>
             let uname = (case msg_first_name m of None \<Rightarrow> Some ''there'' | Some n \<Rightarrow> Some n);
                 telegram_id = msg_from_id m
             in if prefix ''/start'' txt then returns (get_welcome_message e uname)
                else if prefix ''/help'' txt then ok help_text
                else if prefix ''/clear'' txt then
                  (\<lambda>s. case clear_context e telegram_id s of (_, s') \<Rightarrow> (Inr history_cleared, s'))
                else ok unknown_command)"

text \<open>
  \<^verbatim>\<open>text.strip()\<close> is true when some character is not whitespace (the ASCII whitespace
  characters are modelled).
\<close>

definition is_space :: "char \<Rightarrow> bool" where
  "is_space c = (c \<in> set [CHR 0x09, CHR 0x0A, CHR 0x0B, CHR 0x0C, CHR 0x0D,
                           CHR 0x1C, CHR 0x1D, CHR 0x1E, CHR 0x1F, CHR 0x20])"

definition strip_nonempty :: "string \<Rightarrow> bool" where
  "strip_nonempty t = (\<exists>c \<in> set t. \<not> is_space c)"

definition send_me_a_message :: string where
  "send_me_a_message =
     ''Please send me a message and I'll be happy to help! '' @
     [CHR 0xF0, CHR 0x9F, CHR 0x98, CHR 0x8A]"

definition process_message_try :: "env \<Rightarrow> message \<Rightarrow> state \<Rightarrow> (error + string) \<times> state" where
  "process_message_try e m =
     (let uname = msg_username m;
          fname = (case msg_first_name m of None \<Rightarrow> Some ''User'' | Some n \<Rightarrow> Some n);
          lname = msg_last_name m;
          telegram_id = msg_from_id m;
          mid = msg_message_id m
      in if msg_photo m \<noteq> None then returns (handle_photo e m)
         else if msg_document m \<noteq> None then returns (handle_document e m)
         else
           let txt = (case msg_text m of None \<Rightarrow> [] | Some t \<Rightarrow> t)
           in if prefix ''/'' txt then handle_command e m
              else if strip_nonempty txt then
                returns (generate_response e telegram_id txt uname fname lname mid)
              else ok send_me_a_message)"

definition process_message :: "env \<Rightarrow> message \<Rightarrow> state \<Rightarrow> string \<times> state" where
  "process_message e m s =
     (case process_message_try e m s of
        (Inl _, s') \<Rightarrow>
          (''Sorry, I encountered an error processing your message. Please try again.'', s')
      | (Inr r, s') \<Rightarrow> (r, s'))"

definition updated_response :: string where
  "updated_response =
     [CHR 0xF0, CHR 0x9F, CHR 0x93, CHR 0x9D] @ '' *Updated response:*'' @ nl @ nl"

text \<open>
  Answering one message: the typing indicator (whose failures are swallowed and which
  leaves no trace here), the reply, its delivery.
\<close>

definition answer :: "env \<Rightarrow> message \<Rightarrow> string \<Rightarrow> state \<Rightarrow> (error + bool) \<times> state" where
  "answer e m pre =
     (case msg_chat_id m of
        None \<Rightarrow> raise KeyError
      | Some chat_id \<Rightarrow>
          (\<lambda>s. case process_message e m s of
                  (response_text, s') \<Rightarrow> returns (send_message e chat_id (pre @ response_text)) s'))"

definition handle_webhook_update_try :: "env \<Rightarrow> update \<Rightarrow> state \<Rightarrow> (error + bool) \<times> state" where
  "handle_webhook_update_try e u =
     (case upd_message u of
        Some m \<Rightarrow> answer e m []
      | None \<Rightarrow>
          (case upd_edited_message u of
             Some m \<Rightarrow> answer e m updated_response
           | None \<Rightarrow> ok True))"

definition handle_webhook_update :: "env \<Rightarrow> update \<Rightarrow> state \<Rightarrow> bool \<times> state" where
  "handle_webhook_update e u s =
     (case handle_webhook_update_try e u s of
        (Inl _, s') \<Rightarrow> (False, s')
      | (Inr b, s') \<Rightarrow> (b, s'))"

section \<open>app.py: the webhook endpoint\<close>

text \<open>
  The endpoint answers with a JSON body and an HTTP status; the model keeps the message of
  the body and the status. \<^verbatim>\<open>get_bot()\<close> raises when the bot cannot be built; the
  request body is \<open>None\<close> when it holds no JSON.
\<close>

definition empty_update :: "update \<Rightarrow> bool" where
  "empty_update u = (upd_message u = None \<and> upd_edited_message u = None \<and> upd_other_keys u = [])"

definition webhook :: "env \<Rightarrow> update option \<Rightarrow> state \<Rightarrow> (string \<times> nat) \<times> state" where
  "webhook e req s =
     (if \<not> bot_available e then ((''Internal server error'', 500), s)
      else case req of
             None \<Rightarrow> ((''Empty update'', 400), s)
           | Some u \<Rightarrow>
               if empty_update u then ((''Empty update'', 400), s)
               else (case handle_webhook_update e u s of
                       (True, s') \<Rightarrow> ((''ok'', 200), s')
                     | (False, s') \<Rightarrow> ((''Failed to process update'', 500), s')))"

section \<open>Notions used to state the claims\<close>

text \<open>
  The entries of one user key, in insertion order.
\<close>

definition user_entries :: "string \<Rightarrow> state \<Rightarrow> conversation list" where
  "user_entries k s = filter (\<lambda>c. conv_user c = k) (conversations s)"

text \<open>
  Conditions on the environment: the store answers every operation, or none; the
  completion service answers every call, or none.
\<close>

definition store_up :: "env \<Rightarrow> bool" where
  "store_up e = (\<forall>k. \<not> store_fails e k)"


definition completion_up :: "env \<Rightarrow> bool" where
  "completion_up e = (\<forall>m c. \<not> isl (generate_content e m c))"


text \<open>
  The display fields of a profile pass the length checks of the user document.
\<close>

definition valid_profile :: "string option \<Rightarrow> string option \<Rightarrow> string option \<Rightarrow> bool" where
  "valid_profile un fn ln = (max_length 255 un \<and> max_length 255 fn \<and> max_length 255 ln)"

text \<open>
  The conversation entry \<^verbatim>\<open>save_message\<close> writes for a user id at a clock reading.
\<close>

definition turn :: "int \<Rightarrow> msg_type \<Rightarrow> string \<Rightarrow> int option \<Rightarrow> nat \<Rightarrow> conversation" where
  "turn tid mt c mid t = \<lparr>conv_user = str_int tid, message_type = mt, content = c,
                          conv_timestamp = t, message_id = mid\<rparr>"

text \<open>
  What the context query returns once the user entry of the current message has been
  appended at clock reading \<open>t\<close>: the newest twenty entries of the user, oldest first.
\<close>

definition recent_after :: "int \<Rightarrow> string \<Rightarrow> int option \<Rightarrow> nat \<Rightarrow> state \<Rightarrow> conversation list" where
  "recent_after tid msg mid t s =
     rev (take 20 (rev (sort_key conv_timestamp
       (filter (\<lambda>c. conv_user c = str_int tid) (conversations s @ [turn tid MUser msg mid t])))))"

text \<open>
  The prompt composed for a user whose only entry is the message just appended.
\<close>

definition first_prompt :: "string option \<Rightarrow> string option \<Rightarrow> string \<Rightarrow> string" where
  "first_prompt fn un msg =
     system_prompt fn un @ nl @ nl @ ''Conversation history:'' @ nl @ ''User: '' @ msg @ nl @ nl @
     ''Please respond to the latest user message.''"

text \<open>
  A run of text exchanges of one user: \<^verbatim>\<open>generate_response\<close> called once for each
  message of the list, in order.
\<close>

fun exchanges ::
  "env \<Rightarrow> int \<Rightarrow> string option \<Rightarrow> string option \<Rightarrow> string option \<Rightarrow> string list \<Rightarrow> state \<Rightarrow> state" where
  "exchanges e tid un fn ln [] s = s"
| "exchanges e tid un fn ln (msg # msgs) s =
     exchanges e tid un fn ln msgs (snd (generate_response e tid msg un fn ln None s))"

section \<open>Sample environments, stores and messages\<close>

definition env0 :: env where
  "env0 = \<lparr>clock = (\<lambda>k. 100 + k), store_fails = (\<lambda>_. False),
           generate_content = (\<lambda>_ _. Inr (Some ''Hi there'')),
           fetch_file = (\<lambda>_. Some \<lparr>file_bytes = ''bytes'', file_text = Some ''some text''\<rparr>),
           deliver = (\<lambda>_ _. True), bot_available = True\<rparr>"

definition env_api_down :: env where
  "env_api_down = env0\<lparr>generate_content := (\<lambda>_ _. Inl ApiError)\<rparr>"

definition env_store_down :: env where
  "env_store_down = env0\<lparr>store_fails := (\<lambda>_. True)\<rparr>"

definition empty_state :: state where
  "empty_state = \<lparr>users = [], conversations = [], file_messages = [], ticks = 0, store_ops = 0,
                  api_calls = [], downloads = [], sent = []\<rparr>"

definition ann :: user where
  "ann = \<lparr>telegram_id = 7, username = Some ''ann'', first_name = Some ''Ann'',
          last_name = Some ''Old'', created_at = 1, updated_at = 1, is_active = True\<rparr>"

definition ann_state :: state where
  "ann_state = empty_state\<lparr>users := [ann]\<rparr>"

definition entry :: "msg_type \<Rightarrow> string \<Rightarrow> nat \<Rightarrow> conversation" where
  "entry mt c t = \<lparr>conv_user = ''7'', message_type = mt, content = c, conv_timestamp = t,
                   message_id = None\<rparr>"

definition chat_state :: state where
  "chat_state = ann_state\<lparr>conversations := [entry MUser ''one'' 10, entry MAssistant ''two'' 11]\<rparr>"

definition shuffled_state :: state where
  "shuffled_state = ann_state\<lparr>conversations :=
     [entry MUser ''c'' 30, entry MAssistant ''a'' 10,
      (entry MUser ''other'' 15)\<lparr>conv_user := ''8''\<rparr>, entry MUser ''b'' 20]\<rparr>"

definition text_message :: "string \<Rightarrow> message" where
  "text_message t = \<lparr>msg_chat_id = Some 1, msg_from_id = 7, msg_username = Some ''ann'',
      msg_first_name = Some ''Ann'', msg_last_name = Some ''Old'', msg_message_id = Some 42,
      msg_text = Some t, msg_photo = None, msg_caption = None, msg_document = None\<rparr>"

definition photo_message :: "photo_size list \<Rightarrow> message" where
  "photo_message ps = (text_message [])\<lparr>msg_text := None, msg_photo := Some ps\<rparr>"

definition document_message :: "string \<Rightarrow> string option \<Rightarrow> int \<Rightarrow> message" where
  "document_message name mime n = (text_message [])\<lparr>msg_text := None, msg_document :=
      Some \<lparr>doc_file_id = Some ''f1'', doc_file_name = Some name, doc_mime_type = mime,
            doc_file_size = Some n\<rparr>\<rparr>"

definition message_update :: "message \<Rightarrow> update" where
  "message_update m = \<lparr>upd_message = Some m, upd_edited_message = None, upd_other_keys = []\<rparr>"

definition png_file :: tmp_file where
  "png_file = \<lparr>file_bytes = ''bytes'', file_text = None\<rparr>"

section \<open>Running the functions on concrete inputs\<close>

lemma str_int_7: "str_int 7 = ''7''"
  by (simp add: str_int_def digits.simps digit_char_def)

text \<open>
  The definitions unfolded when a function is run on a concrete input.
\<close>

lemmas run_defs =
  ok_def raise_def and_then_def returns_def truthy_def or_else_def
  utcnow_def store_op_def max_length_def validate_user_def validate_file_message_def
  users_first_def put_user_def save_user_def new_user_def get_or_create_user_def
  save_message_def order_by_neg_timestamp_def get_conversation_context_def call_model_def
  last_n_def render_line_def build_prompt_def generate_response_try_def generate_response_def
  delete_conversations_def clear_context_def get_welcome_message_def
  insert_file_message_def update_file_message_def analyze_image_try_def analyze_image_def
  summarize_text_try_def summarize_text_def record_analysis_def analyze_document_try_def
  analyze_document_def send_message_def download_file_def handle_photo_try_def handle_photo_def
  handle_document_try_def handle_document_def handle_command_def strip_nonempty_def is_space_def
  process_message_try_def process_message_def answer_def handle_webhook_update_try_def
  handle_webhook_update_def empty_update_def webhook_def
  max_context_messages_def Let_def

lemmas sample_defs =
  env0_def empty_state_def ann_def ann_state_def text_message_def photo_message_def
  document_message_def entry_def chat_state_def str_int_7
  env_api_down_def env_store_down_def shuffled_state_def message_update_def png_file_def

lemma store_up_env0: "store_up env0"
  by (simp add: store_up_def env0_def)

lemma completion_up_env0: "completion_up env0"
  by (simp add: completion_up_def env0_def)

section \<open>What each step of a text exchange does\<close>

lemma store_op_up: "store_up e \<Longrightarrow> store_op e s = (Inr (), s\<lparr>store_ops := Suc (store_ops s)\<rparr>)"
  by (simp add: store_up_def store_op_def)


lemma isr_obtain:
  assumes "\<not> isl x"
  obtains y where "x = Inr y"
  using assms by (cases x) auto


lemma get_or_create_user_frame:
  assumes "get_or_create_user e tid un fn ln s = (r, s1)"
  shows "conversations s1 = conversations s \<and> api_calls s1 = api_calls s
       \<and> file_messages s1 = file_messages s \<and> downloads s1 = downloads s \<and> sent s1 = sent s
       \<and> (\<forall>u. r = Inr u \<longrightarrow> telegram_id u = tid)"
  using assms
  by (auto simp add: get_or_create_user_def users_first_def and_then_def store_op_def ok_def
      raise_def new_user_def utcnow_def save_user_def Let_def find_Some_iff
      split: if_splits option.splits sum.splits prod.splits)

lemma get_or_create_user_up:
  assumes "store_up e" "valid_profile un fn ln"
  shows "\<exists>u s1. get_or_create_user e tid un fn ln s = (Inr u, s1)"
  using assms
  by (auto simp add: get_or_create_user_def users_first_def and_then_def store_op_up ok_def
      raise_def new_user_def utcnow_def save_user_def Let_def valid_profile_def validate_user_def
      split: if_splits option.splits sum.splits prod.splits)


lemma save_message_up:
  assumes "store_up e"
  shows "save_message e u mt c mid s =
     (Inr (), s\<lparr>ticks := Suc (ticks s), store_ops := Suc (store_ops s),
                 conversations := conversations s @ [turn (telegram_id u) mt c mid (clock e (ticks s))]\<rparr>)"
  using assms
  by (simp add: save_message_def and_then_def utcnow_def store_op_up turn_def)



lemma context_up:
  assumes "store_up e"
  shows "get_conversation_context e u (Some max_context_messages) s =
     (Inr (rev (take 20 (rev (sort_key conv_timestamp
              (filter (\<lambda>c. conv_user c = str_int (telegram_id u)) (conversations s)))))),
      s\<lparr>store_ops := Suc (store_ops s)\<rparr>)"
  using assms
  by (simp add: get_conversation_context_def and_then_def store_op_up order_by_neg_timestamp_def
      max_context_messages_def)

lemma context_result:
  assumes "\<not> store_fails e (store_ops s)"
  shows "get_conversation_context e u limit s =
     (Inr (let ys = sort_key conv_timestamp (user_entries (str_int (telegram_id u)) s)
           in case limit of None \<Rightarrow> ys
              | Some n \<Rightarrow> if n \<noteq> 0 then rev (take n (rev ys)) else ys),
      s\<lparr>store_ops := Suc (store_ops s)\<rparr>)"
  using assms
  by (simp add: get_conversation_context_def and_then_def store_op_def order_by_neg_timestamp_def
      user_entries_def Let_def split: option.splits)


lemma generate_response_run:
  assumes "store_up e" and "valid_profile un fn ln"
  shows "\<exists>t1 t2 s3.
      conversations s3 = conversations s @ [turn tid MUser msg mid t1]
    \<and> api_calls s3 = api_calls s
          @ [(model_name, Text (build_prompt fn un msg (recent_after tid msg mid t1 s)))]
    \<and> file_messages s3 = file_messages s
    \<and> generate_response_try e tid msg un fn ln mid s =
        (case generate_content e model_name
                (Text (build_prompt fn un msg (recent_after tid msg mid t1 s))) of
           Inl err \<Rightarrow> (Inl err, s3)
         | Inr t \<Rightarrow>
             (Inr (or_else t no_response),
              s3\<lparr>ticks := Suc (ticks s3), store_ops := Suc (store_ops s3),
                  conversations := conversations s3
                    @ [turn tid MAssistant (or_else t no_response) None t2]\<rparr>))"
proof -
  obtain u s1 where g: "get_or_create_user e tid un fn ln s = (Inr u, s1)"
    using get_or_create_user_up [OF assms] by blast
  from get_or_create_user_frame [OF g]
  have tid: "telegram_id u = tid" and c1: "conversations s1 = conversations s"
    and a1: "api_calls s1 = api_calls s" and f1: "file_messages s1 = file_messages s" by simp_all
  let ?t1 = "clock e (ticks s1)"
  let ?s2 = "s1\<lparr>ticks := Suc (ticks s1), store_ops := Suc (store_ops s1),
                 conversations := conversations s1 @ [turn tid MUser msg mid ?t1]\<rparr>"
  have sv: "save_message e u MUser msg mid s1 = (Inr (), ?s2)"
    using save_message_up [OF assms(1), of u MUser msg mid s1] tid by simp
  let ?recent = "recent_after tid msg mid ?t1 s"
  let ?s3 = "?s2\<lparr>store_ops := Suc (store_ops ?s2)\<rparr>"
  have cx: "get_conversation_context e u (Some max_context_messages) ?s2 = (Inr ?recent, ?s3)"
    using context_up [OF assms(1), of u ?s2] tid c1 by (simp add: recent_after_def)
  let ?p = "build_prompt fn un msg ?recent"
  let ?s4 = "?s3\<lparr>api_calls := api_calls ?s3 @ [(model_name, Text ?p)]\<rparr>"
  have cm: "call_model e model_name (Text ?p) ?s3 = (generate_content e model_name (Text ?p), ?s4)"
    by (simp add: call_model_def)
  have run: "generate_response_try e tid msg un fn ln mid s =
        (case generate_content e model_name (Text ?p) of
           Inl err \<Rightarrow> (Inl err, ?s4)
         | Inr t \<Rightarrow>
             (Inr (or_else t no_response),
              ?s4\<lparr>ticks := Suc (ticks ?s4), store_ops := Suc (store_ops ?s4),
                  conversations := conversations ?s4
                    @ [turn tid MAssistant (or_else t no_response) None (clock e (ticks ?s4))]\<rparr>))"
    unfolding generate_response_try_def
    using g sv cx cm save_message_up [OF assms(1), of u MAssistant _ None ?s4] tid
    by (simp add: and_then_def ok_def Let_def split: sum.splits)
  have "conversations ?s4 = conversations s @ [turn tid MUser msg mid ?t1]
      \<and> api_calls ?s4 = api_calls s @ [(model_name, Text ?p)]
      \<and> file_messages ?s4 = file_messages s"
    using c1 a1 f1 by simp
  with run show ?thesis by blast
qed



section \<open>Prompts\<close>

lemma contains_prefix: "prefix sub xs \<Longrightarrow> contains sub xs"
  by (cases xs) auto

lemma contains_mid: "contains sub (xs @ sub @ ys)"
  by (induction xs) (auto simp add: contains_prefix)

lemma or_else_nonempty: "d \<noteq> [] \<Longrightarrow> or_else x d \<noteq> []"
  by (simp add: or_else_def split: option.splits)

lemma recent_after_fresh:
  assumes "\<forall>c \<in> set (conversations s). conv_user c \<noteq> str_int tid"
  shows "recent_after tid msg mid t s = [turn tid MUser msg mid t]"
proof -
  have "filter (\<lambda>c. conv_user c = str_int tid) (conversations s) = []"
    using assms by (simp add: filter_empty_conv)
  then show ?thesis by (simp add: recent_after_def turn_def)
qed

lemma build_prompt_single:
  "build_prompt fn un msg [turn tid MUser msg mid t] = first_prompt fn un msg"
  by (simp add: build_prompt_def last_n_def render_line_def turn_def full_prompt_def
      history_header_def first_prompt_def)

lemma first_prompt_has_history: "contains ''Conversation history'' (first_prompt fn un msg)"
proof -
  have "first_prompt fn un msg =
      (system_prompt fn un @ nl @ nl) @ ''Conversation history'' @
      ('':'' @ nl @ ''User: '' @ msg @ nl @ nl @ ''Please respond to the latest user message.'')"
    by (simp add: first_prompt_def)
  then show ?thesis by (simp only: contains_mid)
qed

section \<open>C1: the first message of a user\<close>

text \<open>
  C1, as amended. A user with no prior entries sends a text (\<open>''Hello''\<close> in the
  claim), the store and the completion service answer and the profile is valid. The inbound
  text is appended before the context is fetched, so the context is never empty: the prompt
  sent to the completion client carries the \<open>Conversation history:\<close> section, whose only
  line is the message itself. Exactly one user entry and one assistant entry are appended,
  and the reply is not empty.
\<close>

theorem C1_first_message:
  assumes "store_up e" and "completion_up e" and "valid_profile un fn ln"
      and "\<forall>c \<in> set (conversations s). conv_user c \<noteq> str_int tid"
  shows "\<exists>reply s' t1 t2.
      generate_response e tid msg un fn ln mid s = (reply, s')
    \<and> api_calls s' = api_calls s @ [(model_name, Text (first_prompt fn un msg))]
    \<and> contains ''Conversation history'' (first_prompt fn un msg)
    \<and> conversations s' = conversations s
          @ [turn tid MUser msg mid t1, turn tid MAssistant reply None t2]
    \<and> reply \<noteq> []"
proof -
  obtain t1 t2 s3 where
        c3: "conversations s3 = conversations s @ [turn tid MUser msg mid t1]"
    and a3: "api_calls s3 = api_calls s
               @ [(model_name, Text (build_prompt fn un msg (recent_after tid msg mid t1 s)))]"
    and run: "generate_response_try e tid msg un fn ln mid s =
        (case generate_content e model_name
                (Text (build_prompt fn un msg (recent_after tid msg mid t1 s))) of
           Inl err \<Rightarrow> (Inl err, s3)
         | Inr t \<Rightarrow>
             (Inr (or_else t no_response),
              s3\<lparr>ticks := Suc (ticks s3), store_ops := Suc (store_ops s3),
                  conversations := conversations s3
                    @ [turn tid MAssistant (or_else t no_response) None t2]\<rparr>))"
    using generate_response_run [OF assms(1) assms(3), where tid=tid and msg=msg and mid=mid and s=s] by blast
  have p: "build_prompt fn un msg (recent_after tid msg mid t1 s) = first_prompt fn un msg"
    by (simp add: recent_after_fresh [OF assms(4)] build_prompt_single)
  obtain t where t: "generate_content e model_name (Text (first_prompt fn un msg)) = Inr t"
    using assms(2) by (auto simp add: completion_up_def isl_def) (metis sum.exhaust_sel isl_def)
  let ?reply = "or_else t no_response"
  let ?s' = "s3\<lparr>ticks := Suc (ticks s3), store_ops := Suc (store_ops s3),
                 conversations := conversations s3 @ [turn tid MAssistant ?reply None t2]\<rparr>"
  have "generate_response e tid msg un fn ln mid s = (?reply, ?s')"
    using run p t by (simp add: generate_response_def)
  moreover have "api_calls ?s' = api_calls s @ [(model_name, Text (first_prompt fn un msg))]"
    using a3 p by simp
  moreover have "conversations ?s' = conversations s
          @ [turn tid MUser msg mid t1, turn tid MAssistant ?reply None t2]"
    using c3 by simp
  moreover have "?reply \<noteq> []"
    by (rule or_else_nonempty) (simp add: no_response_def)
  ultimately show ?thesis using first_prompt_has_history by blast
qed

text \<open>
  C1, witness: the theorem at \<open>''Hello''\<close> on the empty store.
\<close>

theorem C1_first_message_witness:
  "\<exists>reply s' t1 t2.
      generate_response env0 7 ''Hello'' (Some ''ann'') (Some ''Ann'') (Some ''Old'') (Some 42)
        empty_state = (reply, s')
    \<and> api_calls s' = [(model_name, Text (first_prompt (Some ''Ann'') (Some ''ann'') ''Hello''))]
    \<and> contains ''Conversation history'' (first_prompt (Some ''Ann'') (Some ''ann'') ''Hello'')
    \<and> conversations s' = [turn 7 MUser ''Hello'' (Some 42) t1, turn 7 MAssistant reply None t2]
    \<and> reply \<noteq> []"
proof -
  have v: "valid_profile (Some ''ann'') (Some ''Ann'') (Some ''Old'')"
    by (simp add: valid_profile_def max_length_def)
  have fresh: "\<forall>c \<in> set (conversations empty_state). conv_user c \<noteq> str_int 7"
    by (simp add: empty_state_def)
  from C1_first_message [OF store_up_env0 completion_up_env0 v fresh, of "''Hello''" "Some 42"]
  show ?thesis by (simp add: empty_state_def)
qed

text \<open>
  C1, counterexample to the claim as stated: for \<open>''Hello''\<close> on the empty store the one
  prompt sent contains \<open>Conversation history\<close>.
\<close>

theorem C1_history_section_counterexample:
  "api_calls (snd (generate_response env0 7 ''Hello'' (Some ''ann'') (Some ''Ann'') (Some ''Old'')
                     (Some 42) empty_state))
     = [(model_name,
         Text (system_prompt (Some ''Ann'') (Some ''ann'') @ nl @ nl @ ''Conversation history:'' @ nl @
               ''User: Hello'' @ nl @ nl @ ''Please respond to the latest user message.''))]
   \<and> contains ''Conversation history''
        (system_prompt (Some ''Ann'') (Some ''ann'') @ nl @ nl @ ''Conversation history:'' @ nl @
         ''User: Hello'' @ nl @ nl @ ''Please respond to the latest user message.'')"
proof -
  have "contains ''Conversation history''
          ((system_prompt (Some ''Ann'') (Some ''ann'') @ nl @ nl) @ ''Conversation history'' @
           ('':'' @ nl @ ''User: Hello'' @ nl @ nl @ ''Please respond to the latest user message.''))"
    by (rule contains_mid)
  then show ?thesis
    by (simp add: run_defs sample_defs full_prompt_def history_header_def)
qed

section \<open>C2: clearing a conversation\<close>

lemma delete_up:
  assumes "store_up e"
  shows "delete_conversations e k s =
     (Inr (length (user_entries k s)),
      s\<lparr>store_ops := Suc (store_ops s),
        conversations := filter (\<lambda>c. conv_user c \<noteq> k) (conversations s)\<rparr>)"
  using assms by (simp add: delete_conversations_def and_then_def store_op_up user_entries_def)

lemma clear_none: "fst (clear_context e tid s) = None"
  by (simp add: clear_context_def split: prod.splits sum.splits)

lemma clear_up:
  assumes "store_up e"
  shows "clear_context e tid s =
     (None, s\<lparr>store_ops := Suc (store_ops s),
              conversations := filter (\<lambda>c. conv_user c \<noteq> str_int tid) (conversations s)\<rparr>)"
  using assms by (simp add: clear_context_def delete_up)

lemma exchange_appends:
  assumes "store_up e" and "completion_up e" and "valid_profile un fn ln"
  shows "\<exists>a b. conversations (snd (generate_response e tid msg un fn ln mid s))
                 = conversations s @ [a, b]
             \<and> conv_user a = str_int tid \<and> conv_user b = str_int tid"
proof -
  obtain t1 t2 s3 where
        c3: "conversations s3 = conversations s @ [turn tid MUser msg mid t1]"
    and run: "generate_response_try e tid msg un fn ln mid s =
        (case generate_content e model_name
                (Text (build_prompt fn un msg (recent_after tid msg mid t1 s))) of
           Inl err \<Rightarrow> (Inl err, s3)
         | Inr t \<Rightarrow>
             (Inr (or_else t no_response),
              s3\<lparr>ticks := Suc (ticks s3), store_ops := Suc (store_ops s3),
                  conversations := conversations s3
                    @ [turn tid MAssistant (or_else t no_response) None t2]\<rparr>))"
    using generate_response_run [OF assms(1) assms(3), where tid=tid and msg=msg and mid=mid and s=s]
    by blast
  have "\<not> isl (generate_content e model_name
                (Text (build_prompt fn un msg (recent_after tid msg mid t1 s))))"
    using assms(2) by (simp add: completion_up_def)
  then obtain t where "generate_content e model_name
                (Text (build_prompt fn un msg (recent_after tid msg mid t1 s))) = Inr t"
    by (rule isr_obtain)
  with run c3 have "conversations (snd (generate_response e tid msg un fn ln mid s))
      = conversations s @ [turn tid MUser msg mid t1, turn tid MAssistant (or_else t no_response) None t2]"
    by (simp add: generate_response_def)
  then show ?thesis by (auto simp add: turn_def)
qed

lemma exchanges_count:
  assumes "store_up e" and "completion_up e" and "valid_profile un fn ln"
  shows "length (user_entries (str_int tid) (exchanges e tid un fn ln msgs s))
           = length (user_entries (str_int tid) s) + 2 * length msgs"
proof (induction msgs arbitrary: s)
  case Nil
  then show ?case by simp
next
  case (Cons msg msgs)
  obtain a b where
    "conversations (snd (generate_response e tid msg un fn ln None s)) = conversations s @ [a, b]"
    "conv_user a = str_int tid" "conv_user b = str_int tid"
    using exchange_appends [OF assms, of tid msg None s] by blast
  then have "length (user_entries (str_int tid) (snd (generate_response e tid msg un fn ln None s)))
      = length (user_entries (str_int tid) s) + 2"
    by (simp add: user_entries_def)
  with Cons.IH [of "snd (generate_response e tid msg un fn ln None s)"] show ?case by simp
qed

text \<open>
  C2, as amended. While the store answers, \<^verbatim>\<open>clear_context\<close> deletes every entry of
  the user id and no other entry, and it returns \<^verbatim>\<open>None\<close>: the count is known to
  the store's delete only, which reports the number of entries the user had. After N
  successful text exchanges of a user who had no entries that number is 2N (an exchange
  appends the user's turn and the assistant's). A second clear right after the first
  deletes nothing: the store's count is 0 and the collection is unchanged.
\<close>

theorem C2_clear_context:
  assumes "store_up e"
  shows "fst (clear_context e tid s) = None
       \<and> conversations (snd (clear_context e tid s))
           = filter (\<lambda>c. conv_user c \<noteq> str_int tid) (conversations s)
       \<and> fst (delete_conversations e (str_int tid) s)
           = Inr (length (user_entries (str_int tid) s))
       \<and> (completion_up e \<and> valid_profile un fn ln \<and> user_entries (str_int tid) s = [] \<longrightarrow>
            fst (delete_conversations e (str_int tid) (exchanges e tid un fn ln msgs s))
              = Inr (2 * length msgs))
       \<and> fst (delete_conversations e (str_int tid) (snd (clear_context e tid s))) = Inr 0
       \<and> conversations (snd (clear_context e tid (snd (clear_context e tid s))))
           = conversations (snd (clear_context e tid s))"
proof -
  have "user_entries (str_int tid) (snd (clear_context e tid s)) = []"
    using assms by (simp add: clear_up user_entries_def)
  moreover have "completion_up e \<and> valid_profile un fn ln \<and> user_entries (str_int tid) s = [] \<longrightarrow>
            length (user_entries (str_int tid) (exchanges e tid un fn ln msgs s)) = 2 * length msgs"
    using exchanges_count [OF assms, of un fn ln tid msgs s] by simp
  ultimately show ?thesis
    using assms by (simp add: clear_up delete_up)
qed

text \<open>
  C2, witness: a store where user 7 has two entries, and three exchanges on the empty store.
\<close>

theorem C2_clear_context_witness:
  "fst (clear_context env0 7 chat_state) = None
   \<and> conversations (snd (clear_context env0 7 chat_state)) = []
   \<and> fst (delete_conversations env0 (str_int 7) chat_state) = Inr 2
   \<and> fst (delete_conversations env0 (str_int 7)
        (exchanges env0 7 (Some ''ann'') (Some ''Ann'') (Some ''Old'') [''a'', ''b'', ''c'']
           empty_state)) = Inr 6
   \<and> fst (delete_conversations env0 (str_int 7) (snd (clear_context env0 7 chat_state))) = Inr 0"
proof -
  have v: "valid_profile (Some ''ann'') (Some ''Ann'') (Some ''Old'')"
    by (simp add: valid_profile_def max_length_def)
  have fresh: "user_entries (str_int 7) empty_state = []"
    by (simp add: user_entries_def empty_state_def)
  from C2_clear_context [OF store_up_env0, of 7 chat_state "Some ''ann''" "Some ''Ann''" "Some ''Old''"]
       C2_clear_context [OF store_up_env0, of 7 empty_state "Some ''ann''" "Some ''Ann''" "Some ''Old''"
                           "[''a'', ''b'', ''c'']"]
       completion_up_env0 v fresh
  show ?thesis
    by (simp add: user_entries_def sample_defs)
qed

text \<open>
  C2, counterexample to the claim as stated: clearing the two entries of user 7 returns
  \<^verbatim>\<open>None\<close>, not the count 2.
\<close>

theorem C2_returns_none_counterexample:
  "fst (clear_context env0 7 chat_state) = None
   \<and> fst (clear_context env0 7 chat_state) \<noteq> Some (length (conversations chat_state))
   \<and> length (conversations chat_state) = 2
   \<and> conversations (snd (clear_context env0 7 chat_state)) = []"
  by (simp add: run_defs sample_defs)

section \<open>C3: the user upsert\<close>

text \<open>
  C3, the code at the inputs where it departs from the claim. When the stored username and
  first name equal the inbound ones, the stored record is returned as it is and nothing is
  saved, whatever the inbound last name: the test that guards the update compares the
  username and the first name only.
\<close>

theorem C3_last_name_change_ignored:
  assumes "find (\<lambda>v. telegram_id v = tid) (users s) = Some u"
      and "username u = un" and "first_name u = fn"
      and "\<not> store_fails e (store_ops s)"
  shows "get_or_create_user e tid un fn ln s = (Inr u, s\<lparr>store_ops := Suc (store_ops s)\<rparr>)"
  using assms
  by (simp add: get_or_create_user_def users_first_def and_then_def store_op_def ok_def)

text \<open>
  C3, the failing input: the stored user 7 is (ann, Ann, Old); the inbound profile
  (ann, Ann, New) leaves last name and updated-at as they were.
\<close>

theorem C3_last_name_change_ignored_witness:
  "get_or_create_user env0 7 (Some ''ann'') (Some ''Ann'') (Some ''New'') ann_state
     = (Inr ann, ann_state\<lparr>store_ops := 1\<rparr>)
   \<and> last_name ann = Some ''Old'' \<and> updated_at ann = 1"
  using C3_last_name_change_ignored [of 7 ann_state ann "Some ''ann''" "Some ''Ann''" env0 "Some ''New''"]
  by (simp add: env0_def ann_state_def empty_state_def ann_def)

section \<open>C4: the processed flag of a media record\<close>

text \<open>
  C4, the code at the failing input. A document with MIME type \<open>image/png\<close> is analysed
  with success: the reply is the analysis. Two records exist afterwards. The one created on
  the document path is still unprocessed and has no analysis text; the one the photo path
  created is processed and carries the analysis.
\<close>

theorem C4_document_record_left_unprocessed:
  "fst (analyze_document env0 7 (Some ''f1'') png_file ''pic.png'' (Some ''image/png'') ann_state)
     = ''Hi there''
   \<and> map (\<lambda>f. (file_type f, processed f, analysis_result f))
        (file_messages (snd (analyze_document env0 7 (Some ''f1'') png_file ''pic.png''
                               (Some ''image/png'') ann_state)))
     = [(''document'', False, None), (''photo'', True, Some ''Hi there'')]"
  by (simp add: run_defs sample_defs png_file_def vision_model_def)

section \<open>C5: the store is unavailable\<close>

lemma clear_not_start: "prefix ''/clear'' t \<Longrightarrow> \<not> prefix ''/start'' t"
  by (auto simp add: prefix_def)

lemma clear_not_help: "prefix ''/clear'' t \<Longrightarrow> \<not> prefix ''/help'' t"
  by (auto simp add: prefix_def)









section \<open>C6: the fallback of the response builder\<close>



section \<open>C7: the recent context\<close>

lemma sorted_last_n:
  "sorted (map f xs) \<Longrightarrow> sorted (map f (rev (take n (rev xs))))"
  by (simp add: rev_take drop_map [symmetric] sorted_wrt_drop)

text \<open>
  C7, as amended. While the store answers, \<^verbatim>\<open>get_conversation_context\<close> returns
  entries of the user only, in non-decreasing timestamp order. For a positive limit n the
  result is the newest n entries (fetched newest first, bounded by n, then reversed), so
  its length is at most n. For the limit 0, as for no limit, the bound is not applied and
  all entries of the user are returned.
\<close>

theorem C7_recent_context:
  assumes "\<not> store_fails e (store_ops s)"
      and "get_conversation_context e u limit s = (r, s')"
  shows "\<exists>xs. r = Inr xs
       \<and> sorted (map conv_timestamp xs)
       \<and> (\<forall>c \<in> set xs. conv_user c = str_int (telegram_id u) \<and> c \<in> set (conversations s))
       \<and> (\<forall>n. limit = Some n \<and> 0 < n \<longrightarrow>
             length xs \<le> n \<and>
             xs = rev (take n (rev (sort_key conv_timestamp (user_entries (str_int (telegram_id u)) s)))))
       \<and> (limit = None \<or> limit = Some 0 \<longrightarrow>
             xs = sort_key conv_timestamp (user_entries (str_int (telegram_id u)) s))"
proof -
  let ?ys = "sort_key conv_timestamp (user_entries (str_int (telegram_id u)) s)"
  have sorted: "sorted (map conv_timestamp ?ys)" by simp
  have mem: "\<forall>c \<in> set ?ys. conv_user c = str_int (telegram_id u) \<and> c \<in> set (conversations s)"
    by (simp add: user_entries_def)
  show ?thesis
  proof (cases limit)
    case None
    with assms context_result [OF assms(1), of u limit] sorted mem show ?thesis by auto
  next
    case (Some n)
    show ?thesis
    proof (cases "n = 0")
      case True
      with Some assms context_result [OF assms(1), of u limit] sorted mem show ?thesis by auto
    next
      case False
      have r: "r = Inr (rev (take n (rev ?ys)))"
        using Some False assms context_result [OF assms(1), of u limit] by (simp add: Let_def)
      have "set (rev (take n (rev ?ys))) \<subseteq> set ?ys"
        by (metis set_rev set_take_subset)
      with mem have m2: "\<forall>c \<in> set (rev (take n (rev ?ys))).
          conv_user c = str_int (telegram_id u) \<and> c \<in> set (conversations s)" by blast
      from r m2 sorted_last_n [OF sorted, of n] Some False show ?thesis by auto
    qed
  qed
qed

text \<open>
  C7, witness: limit 2 on a store where user 7 has three entries, inserted out of order.
\<close>

theorem C7_recent_context_witness:
  "get_conversation_context env0 ann (Some 2) shuffled_state
     = (Inr [entry MUser ''b'' 20, entry MUser ''c'' 30], shuffled_state\<lparr>store_ops := 1\<rparr>)
   \<and> sorted (map conv_timestamp [entry MUser ''b'' 20, entry MUser ''c'' 30])"
proof -
  have up: "\<not> store_fails env0 (store_ops shuffled_state)" by (simp add: env0_def)
  have g: "get_conversation_context env0 ann (Some 2) shuffled_state
     = (Inr [entry MUser ''b'' 20, entry MUser ''c'' 30], shuffled_state\<lparr>store_ops := 1\<rparr>)"
    by (simp add: run_defs sample_defs)
  from C7_recent_context [OF up g] obtain xs
    where x: "(Inr [entry MUser ''b'' 20, entry MUser ''c'' 30] :: error + conversation list) = Inr xs"
      and srt: "sorted (map conv_timestamp xs)"
    by blast
  from x have "xs = [entry MUser ''b'' 20, entry MUser ''c'' 30]" by simp
  with srt g show ?thesis by simp
qed

text \<open>
  C7, counterexample to the claim as stated: with limit 0 both entries of user 7 are
  returned, not the empty list.
\<close>

theorem C7_zero_limit_counterexample:
  "get_conversation_context env0 ann (Some 0) chat_state
     = (Inr [entry MUser ''one'' 10, entry MAssistant ''two'' 11], chat_state\<lparr>store_ops := 1\<rparr>)
   \<and> \<not> length [entry MUser ''one'' 10, entry MAssistant ''two'' 11] \<le> (0::nat)"
  by (simp add: run_defs sample_defs)

section \<open>C8: the size ceiling for documents\<close>





section \<open>C9: unknown commands\<close>

text \<open>
  C9, as amended. Commands are matched by prefix. For a message with a chat id, a text
  that begins with none of \<open>/start\<close>, \<open>/help\<close>, \<open>/clear\<close> gets the fixed
  unknown-command text and the state is untouched. A text that begins with \<open>/clear\<close>,
  such as \<open>/clearly\<close>, is handled as \<open>/clear\<close>: the history is cleared and the
  confirmation is returned.
\<close>

theorem C9_unknown_command:
  assumes "msg_chat_id m = Some c" "msg_text m = Some t"
  shows "(\<not> prefix ''/start'' t \<and> \<not> prefix ''/help'' t \<and> \<not> prefix ''/clear'' t \<longrightarrow>
            handle_command e m s = (Inr unknown_command, s))
       \<and> (prefix ''/clear'' t \<longrightarrow>
            handle_command e m s = (Inr history_cleared, snd (clear_context e (msg_from_id m) s)))
       \<and> (prefix ''/start'' t \<longrightarrow>
            handle_command e m s =
              returns (get_welcome_message e
                         (case msg_first_name m of None \<Rightarrow> Some ''there'' | Some n \<Rightarrow> Some n)) s)"
  using assms
  by (auto simp add: handle_command_def ok_def clear_not_start clear_not_help split: prod.splits)

text \<open>
  C9, witness: \<open>/frobnicate\<close> is unknown, \<open>/clear\<close> clears, \<open>/started\<close> is welcomed.
\<close>

theorem C9_unknown_command_witness:
  "handle_command env0 (text_message ''/frobnicate'') chat_state = (Inr unknown_command, chat_state)
   \<and> handle_command env0 (text_message ''/clear'') chat_state
       = (Inr history_cleared, chat_state\<lparr>conversations := [], store_ops := 1\<rparr>)
   \<and> fst (handle_command env0 (text_message ''/started'') chat_state) = Inr ''Hi there''
   \<and> conversations (snd (handle_command env0 (text_message ''/started'') chat_state))
       = conversations chat_state"
  using C9_unknown_command [of "text_message ''/frobnicate''" 1 "''/frobnicate''" env0 chat_state]
        C9_unknown_command [of "text_message ''/clear''" 1 "''/clear''" env0 chat_state]
        C9_unknown_command [of "text_message ''/started''" 1 "''/started''" env0 chat_state]
  by (simp add: text_message_def clear_context_def delete_conversations_def and_then_def
      store_op_def env0_def chat_state_def ann_state_def empty_state_def entry_def str_int_7
      returns_def get_welcome_message_def call_model_def or_else_def)

text \<open>
  C9, counterexample to the claim as stated: \<open>/clearly\<close> is none of the three commands,
  yet the two entries of user 7 are deleted and the reply is the confirmation.
\<close>

theorem C9_clearly_counterexample:
  "handle_command env0 (text_message ''/clearly'') chat_state
     = (Inr history_cleared, chat_state\<lparr>conversations := [], store_ops := 1\<rparr>)
   \<and> history_cleared \<noteq> unknown_command"
  by (simp add: handle_command_def text_message_def clear_context_def delete_conversations_def
      and_then_def store_op_def env0_def chat_state_def ann_state_def empty_state_def entry_def
      str_int_7 history_cleared_def unknown_command_def)

section \<open>C10: a photo message with no size variants\<close>

text \<open>
  C10. When the photo list of a message is empty, the photo handler returns the fixed text
  and the state is untouched: no download, no media record, no conversation entry.
\<close>

theorem C10_empty_photo_list:
  "msg_photo m = Some [] \<Longrightarrow>
   handle_photo e m s = (''I didn't receive any photo. Please try sending it again.'', s)"
  by (simp add: handle_photo_def handle_photo_try_def ok_def no_photo_def)

text \<open>
  C10, witness: an empty photo list on a store with entries.
\<close>

theorem C10_empty_photo_list_witness:
  "msg_photo (photo_message []) = Some [] \<and>
   handle_photo env0 (photo_message []) chat_state
     = (''I didn't receive any photo. Please try sending it again.'', chat_state)"
  using C10_empty_photo_list [of "photo_message []" env0 chat_state]
  by (simp add: photo_message_def)

end
